theory Spec2Isabelle
  imports Complex_Main
begin

section \<open>JavaScript values\<close>

text \<open>
  The two handlers (\<^verbatim>\<open>src/api/generate.js\<close> and its authenticated variant
  \<^verbatim>\<open>src/unnamed/part_000\<close>) only read request bodies, decoded tokens and upstream
  replies: they test them for truthiness, read properties and pass them on. A value is
  therefore a JSON value extended with \<^verbatim>\<open>undefined\<close>. Numbers are only tested
  against zero and copied, so a number is kept as a rational (\<^verbatim>\<open>-0\<close> is \<open>0\<close>).
  An object is an association list read with \<^const>\<open>map_of\<close>.
\<close>

datatype json =
    JUndefined
  | JNull
  | JBool bool
  | JNum rat
  | JStr string
  | JArr "json list"
  | JObj "(string \<times> json) list"

datatype js_error = TypeError | SyntaxError | NetworkError

text \<open>\<^verbatim>\<open>!v\<close> is \<open>\<not> truthy v\<close>.\<close>

fun truthy :: "json \<Rightarrow> bool" where
  "truthy JUndefined = False"
| "truthy JNull = False"
| "truthy (JBool b) = b"
| "truthy (JNum n) = (n \<noteq> 0)"
| "truthy (JStr s) = (s \<noteq> [])"
| "truthy (JArr xs) = True"
| "truthy (JObj kvs) = True"

fun nullish :: "json \<Rightarrow> bool" where
  "nullish JUndefined = True"
| "nullish JNull = True"
| "nullish v = False"

text \<open>\<^verbatim>\<open>Array.isArray(v)\<close>\<close>

fun isArray :: "json \<Rightarrow> bool" where
  "isArray (JArr xs) = True"
| "isArray v = False"

text \<open>The decimal spelling of an index, the property key \<^verbatim>\<open>[i]\<close> reads on an object.\<close>

fun dec_string :: "nat \<Rightarrow> string" where
  "dec_string n =
     (if n < 10 then [char_of (48 + n)]
      else dec_string (n div 10) @ [char_of (48 + n mod 10)])"

declare dec_string.simps [simp del]

text \<open>
  \<open>prop_of v k\<close> is the property read \<^verbatim>\<open>v.k\<close> on a value that is neither
  \<^verbatim>\<open>null\<close> nor \<^verbatim>\<open>undefined\<close>, for a name \<open>k\<close> that is not a member of a
  prototype (the handlers read \<^verbatim>\<open>parts\<close>, \<^verbatim>\<open>systemInstruction\<close>, \<^verbatim>\<open>uid\<close>,
  \<^verbatim>\<open>candidates\<close>, \<^verbatim>\<open>content\<close> and \<^verbatim>\<open>text\<close>): an own property of an object,
  \<^verbatim>\<open>length\<close> of an array or a string, \<^verbatim>\<open>undefined\<close> otherwise.
  \<open>index_of v i\<close> is \<^verbatim>\<open>v[i]\<close>.
\<close>

fun prop_of :: "json \<Rightarrow> string \<Rightarrow> json" where
  "prop_of (JObj kvs) k = (case map_of kvs k of None \<Rightarrow> JUndefined | Some v \<Rightarrow> v)"
| "prop_of (JArr xs) k = (if k = ''length'' then JNum (of_nat (length xs)) else JUndefined)"
| "prop_of (JStr s) k = (if k = ''length'' then JNum (of_nat (length s)) else JUndefined)"
| "prop_of v k = JUndefined"

fun index_of :: "json \<Rightarrow> nat \<Rightarrow> json" where
  "index_of (JObj kvs) i = (case map_of kvs (dec_string i) of None \<Rightarrow> JUndefined | Some v \<Rightarrow> v)"
| "index_of (JArr xs) i = (if i < length xs then xs ! i else JUndefined)"
| "index_of (JStr s) i = (if i < length s then JStr [s ! i] else JUndefined)"
| "index_of v i = JUndefined"

text \<open>\<^verbatim>\<open>v.k\<close> raises a TypeError on \<^verbatim>\<open>null\<close> and \<^verbatim>\<open>undefined\<close>.\<close>

definition get_prop :: "json \<Rightarrow> string \<Rightarrow> js_error + json" where
  "get_prop v k = (if nullish v then Inl TypeError else Inr (prop_of v k))"

text \<open>Optional chaining: \<^verbatim>\<open>v?.k\<close> and \<^verbatim>\<open>v?.[i]\<close>.\<close>

definition opt_prop :: "json \<Rightarrow> string \<Rightarrow> json" where
  "opt_prop v k = (if nullish v then JUndefined else prop_of v k)"

definition opt_index :: "json \<Rightarrow> nat \<Rightarrow> json" where
  "opt_index v i = (if nullish v then JUndefined else index_of v i)"

subsection \<open>Strings\<close>

text \<open>\<^verbatim>\<open>s.startsWith(p)\<close>\<close>

definition startsWith :: "string \<Rightarrow> string \<Rightarrow> bool" where
  "startsWith s p = (take (length p) s = p)"

text \<open>
  \<^verbatim>\<open>s.split(sep)\<close> for a separator string: the pieces between the occurrences of
  \<open>sep\<close>, found from the left. \<open>acc\<close> holds the current piece, reversed.
\<close>

function split_from :: "string \<Rightarrow> string \<Rightarrow> string \<Rightarrow> string list" where
  "split_from sep acc s =
     (if s = [] then [rev acc]
      else if sep \<noteq> [] \<and> startsWith s sep
        then rev acc # split_from sep [] (drop (length sep) s)
      else split_from sep (hd s # acc) (tl s))"
  by pat_completeness auto
termination
  by (relation "measure (\<lambda>(sep, acc, s). length s)") auto

declare split_from.simps [simp del]

definition split :: "string \<Rightarrow> string \<Rightarrow> string list" where
  "split s sep = split_from sep [] s"

section \<open>Requests, responses and the outside world\<close>

text \<open>
  The inbound request, as far as the handlers read it: \<^verbatim>\<open>request.method\<close>,
  \<^verbatim>\<open>request.headers\<close> (header names to strings) and \<^verbatim>\<open>request.body\<close>.
  What a handler sends with \<^verbatim>\<open>response.status(s).json(v)\<close> is a \<open>response\<close>.
\<close>

record request =
  "method" :: string
  headers :: "string \<Rightarrow> string option"
  body :: json

record response =
  status :: nat
  sent :: json

text \<open>
  What \<^verbatim>\<open>fetch\<close> resolves to: \<^verbatim>\<open>geminiResponse.status\<close> and the result of
  \<^verbatim>\<open>geminiResponse.json()\<close>, \<open>None\<close> when the body is not JSON and the call rejects
  with a SyntaxError. \<^verbatim>\<open>geminiResponse.ok\<close> is, by the Fetch standard, a status in
  the range 200 to 299.
\<close>

record upstream_response =
  upstream_status :: nat
  upstream_json :: "json option"

definition ok :: "upstream_response \<Rightarrow> bool" where
  "ok r = (200 \<le> upstream_status r \<and> upstream_status r \<le> 299)"

text \<open>
  The two services the handlers await are parameters: the upstream API gives an outcome
  for each attempt index, the identity service gives an outcome for a token.
  \<open>Rejected\<close> and \<open>VerifyRejected\<close> are rejected promises (an exception at the
  \<^verbatim>\<open>await\<close>).
\<close>

datatype fetch_outcome = Rejected | Resolved upstream_response

datatype verify_outcome = VerifyRejected | Decoded json

text \<open>What a run does besides responding, in order; \<open>Fetch\<close> carries the URL and the
  value whose \<^verbatim>\<open>JSON.stringify\<close> is the request body.\<close>

datatype event = VerifyIdToken json | Fetch string json | Timeout nat

text \<open>
  The process-wide configuration: the two environment variables (\<open>None\<close> when unset)
  and \<^verbatim>\<open>admin.apps.length\<close> as module initialisation left it.
\<close>

record server =
  GEMINI_API_KEY :: "string option"
  SERVICE_ACCOUNT_KEY :: "string option"
  apps_length :: nat

definition env_value :: "string option \<Rightarrow> json" where
  "env_value v = (case v of None \<Rightarrow> JUndefined | Some s \<Rightarrow> JStr s)"

definition error_body :: "string \<Rightarrow> json" where
  "error_body msg = JObj [(''error'', JStr msg)]"

definition API_URL_BASE :: string where
  "API_URL_BASE = ''https://generativelanguage.googleapis.com/v1beta/models''"

definition GEMINI_MODEL :: string where
  "GEMINI_MODEL = ''gemini-2.5-flash-preview-09-2025''"

definition apiUrl :: "string \<Rightarrow> string" where
  "apiUrl apiKey = API_URL_BASE @ ''/'' @ GEMINI_MODEL @ '':generateContent?key='' @ apiKey"

section \<open>The forwarding stage\<close>

text \<open>
  Both files hold the same code from the payload check to the end
  (\<^verbatim>\<open>generate.js\<close> lines 23 to 80, \<^verbatim>\<open>part_000\<close> lines 71 to 125); it is
  modelled once.
\<close>

definition geminiPayload :: "json \<Rightarrow> json \<Rightarrow> json" where
  "geminiPayload parts systemInstruction =
     JObj [(''contents'', JArr [JObj [(''role'', JStr ''user''), (''parts'', parts)]]),
           (''systemInstruction'', JObj [(''parts'', JArr [JObj [(''text'', systemInstruction)]])])]"

definition maxRetries :: nat where
  "maxRetries = 3"

definition delay :: nat where
  "delay = 1000"

text \<open>
  The \<^verbatim>\<open>for\<close> loop. \<open>geminiResponse\<close> is the variable of that name, \<open>None\<close> while
  it is \<^verbatim>\<open>undefined\<close>. The result is the exception that left the loop, or the
  variable after it.
\<close>

function attempts ::
  "(nat \<Rightarrow> fetch_outcome) \<Rightarrow> string \<Rightarrow> json \<Rightarrow> nat \<Rightarrow> upstream_response option
     \<Rightarrow> (js_error + upstream_response option) \<times> event list" where
  "attempts upstream url payload attempt geminiResponse =
     (if attempt < maxRetries then
        (case upstream attempt of
           Rejected \<Rightarrow> (Inl NetworkError, [Fetch url payload])
         | Resolved r \<Rightarrow>
             if ok r \<or> attempt = maxRetries - 1 then (Inr (Some r), [Fetch url payload])
             else (case attempts upstream url payload (attempt + 1) (Some r) of
                     (res, tr) \<Rightarrow>
                       (res, Fetch url payload # Timeout (delay * 2 ^ attempt) # tr)))
      else (Inr geminiResponse, []))"
  by pat_completeness auto
termination
  by (relation "measure (\<lambda>(upstream, url, payload, attempt, g). maxRetries - attempt)") auto

declare attempts.simps [simp del]

text \<open>\<^verbatim>\<open>result.candidates?.[0]?.content?.parts?.[0]?.text\<close>\<close>

definition extract_text :: "json \<Rightarrow> js_error + json" where
  "extract_text result =
     (case get_prop result ''candidates'' of
        Inl e \<Rightarrow> Inl e
      | Inr candidates \<Rightarrow>
          Inr (opt_prop (opt_index (opt_prop (opt_prop (opt_index candidates 0) ''content'')
                 ''parts'') 0) ''text''))"

text \<open>The rest of the \<^verbatim>\<open>try\<close> block, after the loop.\<close>

definition translate :: "upstream_response option \<Rightarrow> js_error + response" where
  "translate geminiResponse =
     (case geminiResponse of
        None \<Rightarrow> Inl TypeError
      | Some r \<Rightarrow>
          (case upstream_json r of
             None \<Rightarrow> Inl SyntaxError
           | Some result \<Rightarrow>
               if \<not> ok r then
                 Inr \<lparr>status = upstream_status r,
                      sent = JObj [(''error'', JStr ''AI Service Error''), (''details'', result)]\<rparr>
               else
                 (case extract_text result of
                    Inl e \<Rightarrow> Inl e
                  | Inr text \<Rightarrow>
                      if \<not> truthy text then
                        Inr \<lparr>status = 500, sent = error_body ''AI response was empty.''\<rparr>
                      else Inr \<lparr>status = 200, sent = JObj [(''text'', text)]\<rparr>)))"

text \<open>The whole \<^verbatim>\<open>try\<close>/\<^verbatim>\<open>catch\<close>: any exception becomes the 500 of the handler.\<close>

definition call_gemini ::
  "(nat \<Rightarrow> fetch_outcome) \<Rightarrow> string \<Rightarrow> json \<Rightarrow> response \<times> event list" where
  "call_gemini upstream apiKey payload =
     (case attempts upstream (apiUrl apiKey) payload 0 None of
        (res, tr) \<Rightarrow>
          (case (case res of Inl e \<Rightarrow> Inl e | Inr g \<Rightarrow> translate g) of
             Inl e \<Rightarrow>
               (\<lparr>status = 500, sent = error_body ''Internal server error during fetch.''\<rparr>, tr)
           | Inr resp \<Rightarrow> (resp, tr)))"

text \<open>
  From \<^verbatim>\<open>const payload = request.body || {}\<close> on. The result is the response sent,
  or the exception that escapes the handler.
\<close>

definition process_payload ::
  "(nat \<Rightarrow> fetch_outcome) \<Rightarrow> string \<Rightarrow> json \<Rightarrow> (js_error + response) \<times> event list" where
  "process_payload upstream apiKey b =
     (let payload = (if truthy b then b else JObj []) in
      case get_prop payload ''parts'' of
        Inl e \<Rightarrow> (Inl e, [])
      | Inr parts \<Rightarrow>
          (case get_prop payload ''systemInstruction'' of
             Inl e \<Rightarrow> (Inl e, [])
           | Inr systemInstruction \<Rightarrow>
               if \<not> truthy parts \<or> \<not> isArray parts then
                 (Inr \<lparr>status = 400, sent = error_body ''Missing content parts.''\<rparr>, [])
               else
                 (case call_gemini upstream apiKey (geminiPayload parts systemInstruction) of
                    (resp, tr) \<Rightarrow> (Inr resp, tr))))"

section \<open>The two handlers\<close>

text \<open>
  \<^verbatim>\<open>src/api/generate.js\<close>. Of the configuration it reads only
  \<^verbatim>\<open>process.env.GEMINI_API_KEY\<close>. Output to the console is not modelled.
\<close>

definition handler ::
  "server \<Rightarrow> (nat \<Rightarrow> fetch_outcome) \<Rightarrow> request \<Rightarrow> (js_error + response) \<times> event list" where
  "handler env upstream req =
     (if method req \<noteq> ''POST'' then
        (Inr \<lparr>status = 405, sent = error_body ''Method Not Allowed''\<rparr>, [])
      else
        (case GEMINI_API_KEY env of
           None \<Rightarrow> (Inr \<lparr>status = 500, sent = error_body ''Server key not configured.''\<rparr>, [])
         | Some apiKey \<Rightarrow>
             if \<not> truthy (JStr apiKey) then
               (Inr \<lparr>status = 500, sent = error_body ''Server key not configured.''\<rparr>, [])
             else process_payload upstream apiKey (body req)))"

text \<open>\<^verbatim>\<open>authHeader.split('Bearer ')[1]\<close>\<close>

definition idToken_of :: "string \<Rightarrow> json" where
  "idToken_of authHeader = index_of (JArr (map JStr (split authHeader ''Bearer ''))) 1"

text \<open>
  \<^verbatim>\<open>src/unnamed/part_000\<close>. The first \<^verbatim>\<open>try\<close> block answers 403 with
  \<^verbatim>\<open>Access denied\<close> on any exception, a rejection by the identity service (which
  rejects with an error object) or a TypeError alike. The test
  \<^verbatim>\<open>!decodedToken || decodedToken.uid === null\<close> reads \<^verbatim>\<open>uid\<close> only when the
  token is truthy.
\<close>

definition handler_auth ::
  "server \<Rightarrow> (json \<Rightarrow> verify_outcome) \<Rightarrow> (nat \<Rightarrow> fetch_outcome) \<Rightarrow> request
     \<Rightarrow> (js_error + response) \<times> event list" where
  "handler_auth env verifyIdToken upstream req =
     (if method req \<noteq> ''POST'' then
        (Inr \<lparr>status = 405, sent = error_body ''Method Not Allowed''\<rparr>, [])
      else
        (case GEMINI_API_KEY env of
           None \<Rightarrow> (Inr \<lparr>status = 500, sent = error_body ''Server key not configured.''\<rparr>, [])
         | Some apiKey \<Rightarrow>
             if \<not> truthy (JStr apiKey) then
               (Inr \<lparr>status = 500, sent = error_body ''Server key not configured.''\<rparr>, [])
             else if \<not> truthy (env_value (SERVICE_ACCOUNT_KEY env)) \<or> apps_length env = 0 then
               (Inr \<lparr>status = 500, sent = error_body ''Firebase Admin not configured on server.''\<rparr>,
                [])
             else
               (case headers req ''authorization'' of
                  None \<Rightarrow>
                    (Inr \<lparr>status = 401,
                          sent = error_body ''Authorization header missing or invalid.''\<rparr>, [])
                | Some authHeader \<Rightarrow>
                    if \<not> truthy (JStr authHeader) \<or> \<not> startsWith authHeader ''Bearer '' then
                      (Inr \<lparr>status = 401,
                            sent = error_body ''Authorization header missing or invalid.''\<rparr>, [])
                    else
                      (let idToken = idToken_of authHeader in
                       case verifyIdToken idToken of
                         VerifyRejected \<Rightarrow>
                           (Inr \<lparr>status = 403,
                                 sent = error_body ''Access denied: Token verification failed.''\<rparr>,
                            [VerifyIdToken idToken])
                       | Decoded decodedToken \<Rightarrow>
                           if \<not> truthy decodedToken then
                             (Inr \<lparr>status = 403,
                                   sent = error_body ''Invalid or revoked user token.''\<rparr>,
                              [VerifyIdToken idToken])
                           else
                             (case get_prop decodedToken ''uid'' of
                                Inl e \<Rightarrow>
                                  (Inr \<lparr>status = 403,
                                        sent = error_body
                                          ''Access denied: Token verification failed.''\<rparr>,
                                   [VerifyIdToken idToken])
                              | Inr uid \<Rightarrow>
                                  if uid = JNull then
                                    (Inr \<lparr>status = 403,
                                          sent = error_body ''Invalid or revoked user token.''\<rparr>,
                                     [VerifyIdToken idToken])
                                  else
                                    (case process_payload upstream apiKey (body req) of
                                       (out, tr) \<Rightarrow> (out, VerifyIdToken idToken # tr)))))))"

section \<open>Notions used to state the properties\<close>

text \<open>
  The field \<open>k\<close> of a request body as a caller sees it: the member of that name when
  the body is an object that has it, \<^verbatim>\<open>undefined\<close> otherwise.
\<close>

definition field :: "json \<Rightarrow> string \<Rightarrow> json" where
  "field b k =
     (case b of
        JObj kvs \<Rightarrow> (case map_of kvs k of None \<Rightarrow> JUndefined | Some v \<Rightarrow> v)
      | _ \<Rightarrow> JUndefined)"

text \<open>The upstream request a body gives rise to.\<close>

definition payload_of :: "request \<Rightarrow> json" where
  "payload_of req =
     geminiPayload (field (body req) ''parts'') (field (body req) ''systemInstruction'')"

text \<open>
  A request passes the method check, the API key check and the payload check of
  \<^const>\<open>handler\<close>; \<open>k\<close> is the API key.
\<close>

definition accepted :: "server \<Rightarrow> string \<Rightarrow> request \<Rightarrow> bool" where
  "accepted env k req =
     (method req = ''POST'' \<and> GEMINI_API_KEY env = Some k \<and> k \<noteq> [] \<and>
      isArray (field (body req) ''parts''))"

definition admin_configured :: "server \<Rightarrow> bool" where
  "admin_configured env =
     (truthy (env_value (SERVICE_ACCOUNT_KEY env)) \<and> apps_length env \<noteq> 0)"

text \<open>
  The request carries a bearer header, and the identity service resolves its token to a
  truthy decoded token whose \<^verbatim>\<open>uid\<close> is not \<^verbatim>\<open>null\<close>.
\<close>

definition verification_passes :: "(json \<Rightarrow> verify_outcome) \<Rightarrow> request \<Rightarrow> bool" where
  "verification_passes verifyIdToken req =
     (case headers req ''authorization'' of
        None \<Rightarrow> False
      | Some h \<Rightarrow>
          startsWith h ''Bearer '' \<and>
          (case verifyIdToken (idToken_of h) of
             VerifyRejected \<Rightarrow> False
           | Decoded tok \<Rightarrow> truthy tok \<and> prop_of tok ''uid'' \<noteq> JNull))"

definition token_sent :: "request \<Rightarrow> json" where
  "token_sent req =
     (case headers req ''authorization'' of None \<Rightarrow> JUndefined | Some h \<Rightarrow> idToken_of h)"

text \<open>
  What the \<^verbatim>\<open>try\<close>/\<^verbatim>\<open>catch\<close> around the upstream call answers when
  the loop ends with a given outcome of \<^verbatim>\<open>fetch\<close>.
\<close>

definition internal_error :: response where
  "internal_error = \<lparr>status = 500, sent = error_body ''Internal server error during fetch.''\<rparr>"

definition answer_to :: "fetch_outcome \<Rightarrow> response" where
  "answer_to out =
     (case out of
        Rejected \<Rightarrow> internal_error
      | Resolved r \<Rightarrow> (case translate (Some r) of Inl e \<Rightarrow> internal_error | Inr resp \<Rightarrow> resp))"

text \<open>Counting what a run did.\<close>

fun fetch_count :: "event list \<Rightarrow> nat" where
  "fetch_count [] = 0"
| "fetch_count (Fetch url p # es) = Suc (fetch_count es)"
| "fetch_count (e # es) = fetch_count es"

fun total_wait :: "event list \<Rightarrow> nat" where
  "total_wait [] = 0"
| "total_wait (Timeout n # es) = n + total_wait es"
| "total_wait (e # es) = total_wait es"

fun verify_count :: "event list \<Rightarrow> nat" where
  "verify_count [] = 0"
| "verify_count (VerifyIdToken t # es) = Suc (verify_count es)"
| "verify_count (e # es) = verify_count es"

text \<open>
  The events of \<open>n\<close> unsuccessful attempts, each followed by its wait, and one last
  attempt.
\<close>

fun backoff_trace :: "string \<Rightarrow> json \<Rightarrow> nat \<Rightarrow> event list" where
  "backoff_trace url p 0 = [Fetch url p]"
| "backoff_trace url p (Suc n) = backoff_trace url p n @ [Timeout (1000 * 2 ^ n), Fetch url p]"

text \<open>
  An attempt ends the loop when it raises or returns a 2xx status; the third attempt
  ends it in any case.
\<close>

definition settles :: "fetch_outcome \<Rightarrow> bool" where
  "settles out = (case out of Rejected \<Rightarrow> True | Resolved r \<Rightarrow> ok r)"

definition last_attempt :: "(nat \<Rightarrow> fetch_outcome) \<Rightarrow> nat" where
  "last_attempt upstream =
     (if settles (upstream 0) then 0 else if settles (upstream 1) then 1 else 2)"

text \<open>
  Following a path of member names and indices through a value: \<open>None\<close> as soon as a
  segment is absent.
\<close>

datatype segment = Key string | Idx nat

fun lookup_path :: "json \<Rightarrow> segment list \<Rightarrow> json option" where
  "lookup_path v [] = Some v"
| "lookup_path v (s # ss) =
     (if nullish v then None
      else
        (let w = (case s of Key k \<Rightarrow> prop_of v k | Idx i \<Rightarrow> index_of v i) in
         if w = JUndefined then None else lookup_path w ss))"

definition text_path :: "segment list" where
  "text_path = [Key ''candidates'', Idx 0, Key ''content'', Key ''parts'', Idx 0, Key ''text'']"

section \<open>Concrete configurations, requests and replies\<close>

definition example_env :: server where
  "example_env = \<lparr>GEMINI_API_KEY = Some ''key'', SERVICE_ACCOUNT_KEY = Some ''{}'', apps_length = 1\<rparr>"

definition unconfigured_env :: server where
  "unconfigured_env = \<lparr>GEMINI_API_KEY = None, SERVICE_ACCOUNT_KEY = Some ''{}'', apps_length = 1\<rparr>"

definition bearer_headers :: "string \<Rightarrow> string option" where
  "bearer_headers name = (if name = ''authorization'' then Some ''Bearer abc'' else None)"

definition no_headers :: "string \<Rightarrow> string option" where
  "no_headers name = None"

definition hello_body :: json where
  "hello_body =
     JObj [(''parts'', JArr [JObj [(''text'', JStr ''hello'')]]),
           (''systemInstruction'', JStr ''be terse'')]"

definition example_request :: request where
  "example_request = \<lparr>method = ''POST'', headers = bearer_headers, body = hello_body\<rparr>"

definition get_request :: request where
  "get_request = \<lparr>method = ''GET'', headers = bearer_headers, body = hello_body\<rparr>"

definition no_header_request :: request where
  "no_header_request = \<lparr>method = ''POST'', headers = no_headers, body = hello_body\<rparr>"

definition basic_header_request :: request where
  "basic_header_request =
     \<lparr>method = ''POST'', headers = (\<lambda>name. if name = ''authorization'' then Some ''Basic abc'' else None),
      body = hello_body\<rparr>"

definition put_request :: request where
  "put_request = \<lparr>method = ''PUT'', headers = no_headers, body = JNull\<rparr>"

definition null_body_request :: request where
  "null_body_request = \<lparr>method = ''POST'', headers = bearer_headers, body = JNull\<rparr>"

definition empty_parts_request :: request where
  "empty_parts_request =
     \<lparr>method = ''POST'', headers = bearer_headers, body = JObj [(''parts'', JArr [])]\<rparr>"

definition candidates_with :: "json \<Rightarrow> json" where
  "candidates_with t =
     JObj [(''candidates'', JArr [JObj [(''content'', JObj [(''parts'', JArr [JObj [(''text'', t)]])])]])]"

definition reply_hi :: upstream_response where
  "reply_hi = \<lparr>upstream_status = 200, upstream_json = Some (candidates_with (JStr ''hi''))\<rparr>"

definition reply_empty_text :: upstream_response where
  "reply_empty_text = \<lparr>upstream_status = 200, upstream_json = Some (candidates_with (JStr []))\<rparr>"

definition reply_overloaded :: upstream_response where
  "reply_overloaded =
     \<lparr>upstream_status = 503, upstream_json = Some (JObj [(''message'', JStr ''overloaded'')])\<rparr>"

definition reply_not_json :: upstream_response where
  "reply_not_json = \<lparr>upstream_status = 503, upstream_json = None\<rparr>"

definition always :: "upstream_response \<Rightarrow> nat \<Rightarrow> fetch_outcome" where
  "always r attempt = Resolved r"

definition verify_accepts :: "json \<Rightarrow> verify_outcome" where
  "verify_accepts t = Decoded (JObj [(''uid'', JStr ''user-1'')])"

definition verify_rejects :: "json \<Rightarrow> verify_outcome" where
  "verify_rejects t = VerifyRejected"

definition verify_null_uid :: "json \<Rightarrow> verify_outcome" where
  "verify_null_uid t = Decoded (JObj [(''uid'', JNull)])"

definition string_parts_request :: request where
  "string_parts_request =
     \<lparr>method = ''POST'', headers = bearer_headers, body = JObj [(''parts'', JStr ''hello'')]\<rparr>"

definition fails_once :: "nat \<Rightarrow> fetch_outcome" where
  "fails_once attempt = (if attempt = 0 then Rejected else Resolved reply_hi)"

definition fails_second :: "nat \<Rightarrow> fetch_outcome" where
  "fails_second attempt = (if attempt = 0 then Resolved reply_overloaded else Rejected)"

definition recovers_third :: "nat \<Rightarrow> fetch_outcome" where
  "recovers_third attempt = (if attempt < 2 then Resolved reply_overloaded else Resolved reply_hi)"

section \<open>Basic facts\<close>

lemma truthy_not_nullish: "truthy v \<Longrightarrow> \<not> nullish v"
  by (cases v) simp_all

lemma field_payload:
  "k \<noteq> ''length'' \<Longrightarrow> get_prop (if truthy b then b else JObj []) k = Inr (field b k)"
  by (cases b) (auto simp: get_prop_def field_def)

lemma attempts_third:
  "attempts upstream url p (Suc (Suc 0)) g =
     (case upstream (Suc (Suc 0)) of
        Rejected \<Rightarrow> (Inl NetworkError, [Fetch url p])
      | Resolved r \<Rightarrow> (Inr (Some r), [Fetch url p]))"
  by (subst attempts.simps) (simp add: maxRetries_def split: fetch_outcome.splits)

lemma attempts_second:
  "attempts upstream url p (Suc 0) g =
     (case upstream (Suc 0) of
        Rejected \<Rightarrow> (Inl NetworkError, [Fetch url p])
      | Resolved r \<Rightarrow>
          if ok r then (Inr (Some r), [Fetch url p])
          else (case attempts upstream url p (Suc (Suc 0)) (Some r) of
                  (res, tr) \<Rightarrow> (res, Fetch url p # Timeout 2000 # tr)))"
  by (subst attempts.simps)
     (simp add: maxRetries_def delay_def numeral_2_eq_2 split: fetch_outcome.splits)

lemma attempts_first:
  "attempts upstream url p 0 g =
     (case upstream 0 of
        Rejected \<Rightarrow> (Inl NetworkError, [Fetch url p])
      | Resolved r \<Rightarrow>
          if ok r then (Inr (Some r), [Fetch url p])
          else (case attempts upstream url p (Suc 0) (Some r) of
                  (res, tr) \<Rightarrow> (res, Fetch url p # Timeout 1000 # tr)))"
  by (subst attempts.simps) (simp add: maxRetries_def delay_def split: fetch_outcome.splits)

text \<open>The loop, unrolled: every way it can end.\<close>

lemma attempts_unfold:
  "attempts upstream url p 0 None =
     (case upstream 0 of
        Rejected \<Rightarrow> (Inl NetworkError, backoff_trace url p 0)
      | Resolved r0 \<Rightarrow>
          if ok r0 then (Inr (Some r0), backoff_trace url p 0)
          else
            (case upstream 1 of
               Rejected \<Rightarrow> (Inl NetworkError, backoff_trace url p 1)
             | Resolved r1 \<Rightarrow>
                 if ok r1 then (Inr (Some r1), backoff_trace url p 1)
                 else
                   (case upstream 2 of
                      Rejected \<Rightarrow> (Inl NetworkError, backoff_trace url p 2)
                    | Resolved r2 \<Rightarrow> (Inr (Some r2), backoff_trace url p 2))))"
  by (simp add: attempts_first attempts_second attempts_third numeral_2_eq_2
      split: fetch_outcome.splits)

lemma process_payload_rejects:
  "\<not> isArray (field b ''parts'') \<Longrightarrow>
   process_payload upstream k b =
     (Inr \<lparr>status = 400, sent = error_body ''Missing content parts.''\<rparr>, [])"
  by (simp add: process_payload_def field_payload Let_def)

lemma process_payload_forwards:
  "isArray (field b ''parts'') \<Longrightarrow>
   process_payload upstream k b =
     (case call_gemini upstream k
        (geminiPayload (field b ''parts'') (field b ''systemInstruction'')) of
        (resp, tr) \<Rightarrow> (Inr resp, tr))"
  by (cases "field b ''parts''") (simp_all add: process_payload_def field_payload Let_def)

lemma handler_post:
  "method req = ''POST'' \<Longrightarrow> GEMINI_API_KEY env = Some k \<Longrightarrow> k \<noteq> [] \<Longrightarrow>
   handler env upstream req = process_payload upstream k (body req)"
  by (simp add: handler_def)

lemma handler_accepted:
  "accepted env k req \<Longrightarrow>
   handler env upstream req =
     (case call_gemini upstream k (payload_of req) of (resp, tr) \<Rightarrow> (Inr resp, tr))"
  by (simp add: accepted_def handler_def payload_of_def process_payload_forwards)

lemma handler_auth_verified:
  "method req = ''POST'' \<Longrightarrow> GEMINI_API_KEY env = Some k \<Longrightarrow> k \<noteq> [] \<Longrightarrow>
   admin_configured env \<Longrightarrow> verification_passes verifyIdToken req \<Longrightarrow>
   handler_auth env verifyIdToken upstream req =
     (case process_payload upstream k (body req) of
        (out, tr) \<Rightarrow> (out, VerifyIdToken (token_sent req) # tr))"
  by (auto simp: handler_auth_def admin_configured_def verification_passes_def token_sent_def
      get_prop_def startsWith_def Let_def truthy_not_nullish
      split: option.splits verify_outcome.splits prod.splits)

lemma handler_auth_accepted:
  "accepted env k req \<Longrightarrow> admin_configured env \<Longrightarrow> verification_passes verifyIdToken req \<Longrightarrow>
   handler_auth env verifyIdToken upstream req =
     (case call_gemini upstream k (payload_of req) of
        (resp, tr) \<Rightarrow> (Inr resp, VerifyIdToken (token_sent req) # tr))"
  by (simp add: accepted_def handler_auth_verified payload_of_def process_payload_forwards
      split: prod.splits)

lemma idToken_example: "idToken_of ''Bearer abc'' = JStr ''abc''"
  by code_simp

lemma accepted_example: "accepted example_env ''key'' example_request"
  by (simp add: accepted_def example_env_def example_request_def hello_body_def field_def)

lemma admin_example: "admin_configured example_env"
  by (simp add: admin_configured_def example_env_def env_value_def)

lemma verification_example: "verification_passes verify_accepts example_request"
  by (simp add: verification_passes_def verify_accepts_def example_request_def
      bearer_headers_def startsWith_def)

lemma backoff_trace_head: "\<exists>tr. backoff_trace url p n = Fetch url p # tr"
  by (induction n) auto

lemma fetch_count_append: "fetch_count (xs @ ys) = fetch_count xs + fetch_count ys"
  by (induction xs rule: fetch_count.induct) simp_all

lemma total_wait_append: "total_wait (xs @ ys) = total_wait xs + total_wait ys"
  by (induction xs rule: total_wait.induct) simp_all

lemma fetch_count_backoff: "fetch_count (backoff_trace url p n) = Suc n"
  by (induction n) (simp_all add: fetch_count_append)

lemma last_attempt_le: "last_attempt upstream \<le> 2"
  by (simp add: last_attempt_def)

text \<open>The upstream call as a whole: the answer to the outcome of the last attempt made.\<close>

lemma call_gemini_eq:
  "call_gemini upstream k p =
     (answer_to (upstream (last_attempt upstream)),
      backoff_trace (apiUrl k) p (last_attempt upstream))"
  by (simp add: call_gemini_def attempts_unfold last_attempt_def settles_def answer_to_def
      internal_error_def split: fetch_outcome.splits sum.splits)

lemma process_payload_responds: "\<exists>resp tr. process_payload upstream k b = (Inr resp, tr)"
  by (cases "isArray (field b ''parts'')")
     (simp_all add: process_payload_rejects process_payload_forwards split: prod.splits)

lemma process_payload_out:
  "process_payload upstream k b = (out, tr) \<Longrightarrow> \<exists>resp. out = Inr resp"
  using process_payload_responds [of upstream k b] by auto

lemma handler_responds: "\<exists>resp tr. handler env upstream req = (Inr resp, tr)"
  using process_payload_responds [of upstream _ "body req"]
  by (auto simp: handler_def split: option.splits)

lemma handler_auth_responds:
  "\<exists>resp tr. handler_auth env verifyIdToken upstream req = (Inr resp, tr)"
  by (auto simp: handler_auth_def Let_def dest: process_payload_out
      split: option.splits verify_outcome.splits sum.splits prod.splits)

section \<open>Missing API key\<close>

text \<open>
  C8, as the code has it: both handlers check the method first. For every POST request
  the answer to a missing API key is 500 with \<^verbatim>\<open>{"error":"Server key not configured."}\<close>,
  whatever its headers and body, the identity service and the upstream, and nothing is
  called. Every request with another method is answered 405 with
  \<^verbatim>\<open>{"error":"Method Not Allowed"}\<close> before the key is looked at, whatever the
  configuration, and nothing is called either.
\<close>

theorem missing_key_response:
  "(method req = ''POST'' \<longrightarrow> \<not> truthy (env_value (GEMINI_API_KEY env)) \<longrightarrow>
      handler env upstream req =
        (Inr \<lparr>status = 500, sent = error_body ''Server key not configured.''\<rparr>, []) \<and>
      handler_auth env verifyIdToken upstream req =
        (Inr \<lparr>status = 500, sent = error_body ''Server key not configured.''\<rparr>, [])) \<and>
   (method req \<noteq> ''POST'' \<longrightarrow>
      handler env upstream req =
        (Inr \<lparr>status = 405, sent = error_body ''Method Not Allowed''\<rparr>, []) \<and>
      handler_auth env verifyIdToken upstream req =
        (Inr \<lparr>status = 405, sent = error_body ''Method Not Allowed''\<rparr>, []))"
proof -
  have post: "handler env upstream req =
        (Inr \<lparr>status = 500, sent = error_body ''Server key not configured.''\<rparr>, []) \<and>
      handler_auth env verifyIdToken upstream req =
        (Inr \<lparr>status = 500, sent = error_body ''Server key not configured.''\<rparr>, [])"
    if "method req = ''POST''" and "\<not> truthy (env_value (GEMINI_API_KEY env))"
    using that by (auto simp: handler_def handler_auth_def env_value_def split: option.splits)
  have other: "handler env upstream req =
        (Inr \<lparr>status = 405, sent = error_body ''Method Not Allowed''\<rparr>, []) \<and>
      handler_auth env verifyIdToken upstream req =
        (Inr \<lparr>status = 405, sent = error_body ''Method Not Allowed''\<rparr>, [])"
    if "method req \<noteq> ''POST''"
    using that by (simp add: handler_def handler_auth_def)
  show ?thesis
    using post other by blast
qed

text \<open>
  The theorem at a POST request and at a PUT request, both under a configuration without
  the key.
\<close>

theorem missing_key_response_witness:
  "method example_request = ''POST'' \<and> method put_request \<noteq> ''POST'' \<and>
   \<not> truthy (env_value (GEMINI_API_KEY unconfigured_env)) \<and>
   handler unconfigured_env (always reply_hi) example_request =
     (Inr \<lparr>status = 500, sent = error_body ''Server key not configured.''\<rparr>, []) \<and>
   handler_auth unconfigured_env verify_accepts (always reply_hi) example_request =
     (Inr \<lparr>status = 500, sent = error_body ''Server key not configured.''\<rparr>, []) \<and>
   handler unconfigured_env (always reply_hi) put_request =
     (Inr \<lparr>status = 405, sent = error_body ''Method Not Allowed''\<rparr>, []) \<and>
   handler_auth unconfigured_env verify_accepts (always reply_hi) put_request =
     (Inr \<lparr>status = 405, sent = error_body ''Method Not Allowed''\<rparr>, [])"
proof -
  have m: "method example_request = ''POST''"
    by (simp add: example_request_def)
  have p: "method put_request \<noteq> ''POST''"
    by (simp add: put_request_def)
  have k: "\<not> truthy (env_value (GEMINI_API_KEY unconfigured_env))"
    by (simp add: unconfigured_env_def env_value_def)
  have post: "handler unconfigured_env (always reply_hi) example_request =
       (Inr \<lparr>status = 500, sent = error_body ''Server key not configured.''\<rparr>, []) \<and>
     handler_auth unconfigured_env verify_accepts (always reply_hi) example_request =
       (Inr \<lparr>status = 500, sent = error_body ''Server key not configured.''\<rparr>, [])"
    using missing_key_response [where req = example_request and env = unconfigured_env
        and upstream = "always reply_hi" and verifyIdToken = verify_accepts] m k
    by blast
  have other: "handler unconfigured_env (always reply_hi) put_request =
       (Inr \<lparr>status = 405, sent = error_body ''Method Not Allowed''\<rparr>, []) \<and>
     handler_auth unconfigured_env verify_accepts (always reply_hi) put_request =
       (Inr \<lparr>status = 405, sent = error_body ''Method Not Allowed''\<rparr>, [])"
    using missing_key_response [where req = put_request and env = unconfigured_env
        and upstream = "always reply_hi" and verifyIdToken = verify_accepts] p
    by blast
  show ?thesis
    using m p k post other by blast
qed

text \<open>
  C8 as stated fails: with the key missing, a GET request is answered 405 by both
  handlers, not 500.
\<close>

theorem missing_key_other_method:
  "\<not> truthy (env_value (GEMINI_API_KEY unconfigured_env)) \<and>
   handler unconfigured_env (always reply_hi) get_request =
     (Inr \<lparr>status = 405, sent = error_body ''Method Not Allowed''\<rparr>, []) \<and>
   handler_auth unconfigured_env verify_accepts (always reply_hi) get_request =
     (Inr \<lparr>status = 405, sent = error_body ''Method Not Allowed''\<rparr>, [])"
  by (simp add: unconfigured_env_def env_value_def handler_def handler_auth_def get_request_def)

section \<open>Payload validation\<close>

text \<open>
  C6: for every POST request that passes the configuration check (and, in the
  authenticated variant, credential verification), if the \<^verbatim>\<open>parts\<close> field of the
  body is absent or is not an array, the handler answers 400 with
  \<^verbatim>\<open>{"error":"Missing content parts."}\<close> and makes no upstream call.
\<close>

theorem missing_parts_rejected:
  assumes "method req = ''POST''" and "GEMINI_API_KEY env = Some k" and "k \<noteq> []"
    and "\<not> isArray (field (body req) ''parts'')"
  shows "handler env upstream req =
           (Inr \<lparr>status = 400, sent = error_body ''Missing content parts.''\<rparr>, []) \<and>
         fetch_count (snd (handler env upstream req)) = 0 \<and>
         (admin_configured env \<longrightarrow> verification_passes verifyIdToken req \<longrightarrow>
            handler_auth env verifyIdToken upstream req =
              (Inr \<lparr>status = 400, sent = error_body ''Missing content parts.''\<rparr>,
               [VerifyIdToken (token_sent req)]) \<and>
            fetch_count (snd (handler_auth env verifyIdToken upstream req)) = 0)"
  using assms
  by (simp add: handler_post handler_auth_verified process_payload_rejects)

text \<open>The theorem at a body whose \<^verbatim>\<open>parts\<close> is a string.\<close>

theorem missing_parts_rejected_witness:
  "handler example_env (always reply_hi) string_parts_request =
     (Inr \<lparr>status = 400, sent = error_body ''Missing content parts.''\<rparr>, []) \<and>
   fetch_count (snd (handler example_env (always reply_hi) string_parts_request)) = 0 \<and>
   handler_auth example_env verify_accepts (always reply_hi) string_parts_request =
     (Inr \<lparr>status = 400, sent = error_body ''Missing content parts.''\<rparr>,
      [VerifyIdToken (JStr ''abc'')]) \<and>
   fetch_count (snd (handler_auth example_env verify_accepts (always reply_hi)
     string_parts_request)) = 0"
proof -
  have m: "method string_parts_request = ''POST''"
    by (simp add: string_parts_request_def)
  have k: "GEMINI_API_KEY example_env = Some ''key''"
    by (simp add: example_env_def)
  have n: "''key'' \<noteq> []"
    by simp
  have p: "\<not> isArray (field (body string_parts_request) ''parts'')"
    by (simp add: string_parts_request_def field_def)
  have v: "verification_passes verify_accepts string_parts_request"
    by (simp add: verification_passes_def verify_accepts_def string_parts_request_def
        bearer_headers_def startsWith_def)
  have t: "token_sent string_parts_request = JStr ''abc''"
    by (simp add: token_sent_def string_parts_request_def bearer_headers_def idToken_example)
  show ?thesis
    using missing_parts_rejected [OF m k n p, of "always reply_hi" verify_accepts]
      admin_example v t
    by simp
qed

text \<open>
  C10: for every POST request with the configuration present (and, in the authenticated
  variant, verification passed) whose body is \<^verbatim>\<open>null\<close> or \<^verbatim>\<open>undefined\<close>,
  the handler answers 400 with \<^verbatim>\<open>{"error":"Missing content parts."}\<close>; and
  whatever the body is, both handlers send a response and no exception escapes them.
\<close>

theorem absent_body_rejected:
  assumes "method req = ''POST''" and "GEMINI_API_KEY env = Some k" and "k \<noteq> []"
    and "nullish (body req)"
  shows "handler env upstream req =
           (Inr \<lparr>status = 400, sent = error_body ''Missing content parts.''\<rparr>, []) \<and>
         (admin_configured env \<longrightarrow> verification_passes verifyIdToken req \<longrightarrow>
            handler_auth env verifyIdToken upstream req =
              (Inr \<lparr>status = 400, sent = error_body ''Missing content parts.''\<rparr>,
               [VerifyIdToken (token_sent req)])) \<and>
         (\<forall>b. \<exists>resp tr. handler env upstream (req\<lparr>body := b\<rparr>) = (Inr resp, tr)) \<and>
         (\<forall>b. \<exists>resp tr.
            handler_auth env verifyIdToken upstream (req\<lparr>body := b\<rparr>) = (Inr resp, tr))"
proof -
  from \<open>nullish (body req)\<close> have na: "\<not> isArray (field (body req) ''parts'')"
    by (cases "body req") (simp_all add: field_def)
  have plain: "handler env upstream req =
      (Inr \<lparr>status = 400, sent = error_body ''Missing content parts.''\<rparr>, [])"
    using assms na by (simp add: handler_post process_payload_rejects)
  have auth: "admin_configured env \<longrightarrow> verification_passes verifyIdToken req \<longrightarrow>
      handler_auth env verifyIdToken upstream req =
        (Inr \<lparr>status = 400, sent = error_body ''Missing content parts.''\<rparr>,
         [VerifyIdToken (token_sent req)])"
    using assms na by (simp add: handler_auth_verified process_payload_rejects)
  have total: "\<forall>b. \<exists>resp tr. handler env upstream (req\<lparr>body := b\<rparr>) = (Inr resp, tr)"
    using handler_responds by blast
  have total_auth: "\<forall>b. \<exists>resp tr.
      handler_auth env verifyIdToken upstream (req\<lparr>body := b\<rparr>) = (Inr resp, tr)"
    using handler_auth_responds by blast
  show ?thesis
    using plain auth total total_auth by blast
qed

text \<open>The theorem at a request whose body is \<^verbatim>\<open>null\<close>.\<close>

theorem absent_body_rejected_witness:
  "nullish (body null_body_request) \<and>
   handler example_env (always reply_hi) null_body_request =
     (Inr \<lparr>status = 400, sent = error_body ''Missing content parts.''\<rparr>, []) \<and>
   handler_auth example_env verify_accepts (always reply_hi) null_body_request =
     (Inr \<lparr>status = 400, sent = error_body ''Missing content parts.''\<rparr>,
      [VerifyIdToken (JStr ''abc'')])"
proof -
  have m: "method null_body_request = ''POST''"
    by (simp add: null_body_request_def)
  have k: "GEMINI_API_KEY example_env = Some ''key''"
    by (simp add: example_env_def)
  have n: "''key'' \<noteq> []"
    by simp
  have b: "nullish (body null_body_request)"
    by (simp add: null_body_request_def)
  have v: "verification_passes verify_accepts null_body_request"
    by (simp add: verification_passes_def verify_accepts_def null_body_request_def
        bearer_headers_def startsWith_def)
  have t: "token_sent null_body_request = JStr ''abc''"
    by (simp add: token_sent_def null_body_request_def bearer_headers_def idToken_example)
  show ?thesis
    using absent_body_rejected [OF m k n b, of "always reply_hi" verify_accepts]
      admin_example v t b
    by simp
qed

text \<open>
  C7 as stated fails: a body whose \<^verbatim>\<open>parts\<close> is the empty array passes the
  payload check of both handlers and is sent upstream.
\<close>

theorem empty_parts_forwarded:
  "field (body empty_parts_request) ''parts'' = JArr [] \<and>
   handler example_env (always reply_hi) empty_parts_request =
     (Inr \<lparr>status = 200, sent = JObj [(''text'', JStr ''hi'')]\<rparr>,
      [Fetch (apiUrl ''key'') (geminiPayload (JArr []) JUndefined)]) \<and>
   handler_auth example_env verify_accepts (always reply_hi) empty_parts_request =
     (Inr \<lparr>status = 200, sent = JObj [(''text'', JStr ''hi'')]\<rparr>,
      [VerifyIdToken (JStr ''abc''),
       Fetch (apiUrl ''key'') (geminiPayload (JArr []) JUndefined)])"
proof -
  have a: "accepted example_env ''key'' empty_parts_request"
    by (simp add: accepted_def example_env_def empty_parts_request_def field_def)
  have v: "verification_passes verify_accepts empty_parts_request"
    by (simp add: verification_passes_def verify_accepts_def empty_parts_request_def
        bearer_headers_def startsWith_def)
  have t: "token_sent empty_parts_request = JStr ''abc''"
    by (simp add: token_sent_def empty_parts_request_def bearer_headers_def idToken_example)
  have p: "payload_of empty_parts_request = geminiPayload (JArr []) JUndefined"
    by (simp add: payload_of_def empty_parts_request_def field_def)
  have l: "last_attempt (always reply_hi) = 0"
    by (simp add: last_attempt_def settles_def always_def reply_hi_def ok_def)
  have r: "answer_to (always reply_hi 0) = \<lparr>status = 200, sent = JObj [(''text'', JStr ''hi'')]\<rparr>"
    by (simp add: answer_to_def always_def translate_def reply_hi_def ok_def extract_text_def
        candidates_with_def get_prop_def opt_prop_def opt_index_def)
  show ?thesis
    using handler_accepted [OF a] handler_auth_accepted [OF a admin_example v]
    by (simp add: call_gemini_eq l r t p) (simp add: empty_parts_request_def field_def)
qed

text \<open>
  C7, as the code has it: \<^verbatim>\<open>parts\<close> has to be an array, and any array will do,
  the empty one included. For every POST request with the configuration present (and
  verification passed) whose \<^verbatim>\<open>parts\<close> is an array, the handler goes on to call
  the upstream, with that array as \<^verbatim>\<open>contents[0].parts\<close>.
\<close>

theorem array_parts_forwarded:
  assumes "method req = ''POST''" and "GEMINI_API_KEY env = Some k" and "k \<noteq> []"
    and "field (body req) ''parts'' = JArr ps"
  shows "(\<exists>resp tr. handler env upstream req =
            (Inr resp,
             Fetch (apiUrl k) (geminiPayload (JArr ps) (field (body req) ''systemInstruction''))
               # tr)) \<and>
         (admin_configured env \<longrightarrow> verification_passes verifyIdToken req \<longrightarrow>
            (\<exists>resp tr. handler_auth env verifyIdToken upstream req =
               (Inr resp,
                VerifyIdToken (token_sent req)
                  # Fetch (apiUrl k)
                      (geminiPayload (JArr ps) (field (body req) ''systemInstruction''))
                  # tr)))"
proof -
  from assms have a: "accepted env k req"
    by (simp add: accepted_def)
  obtain tr where tr: "backoff_trace (apiUrl k) (payload_of req) (last_attempt upstream) =
      Fetch (apiUrl k) (payload_of req) # tr"
    using backoff_trace_head by blast
  have p: "payload_of req = geminiPayload (JArr ps) (field (body req) ''systemInstruction'')"
    using assms(4) by (simp add: payload_of_def)
  show ?thesis
    using a tr p by (simp add: handler_accepted handler_auth_accepted call_gemini_eq)
qed

text \<open>The theorem at the empty array.\<close>

theorem array_parts_forwarded_witness:
  "field (body empty_parts_request) ''parts'' = JArr [] \<and>
   (\<exists>resp tr. handler example_env (always reply_overloaded) empty_parts_request =
      (Inr resp, Fetch (apiUrl ''key'') (geminiPayload (JArr []) JUndefined) # tr)) \<and>
   (\<exists>resp tr. handler_auth example_env verify_accepts (always reply_overloaded)
        empty_parts_request =
      (Inr resp,
       VerifyIdToken (JStr ''abc'')
         # Fetch (apiUrl ''key'') (geminiPayload (JArr []) JUndefined) # tr))"
proof -
  have m: "method empty_parts_request = ''POST''"
    by (simp add: empty_parts_request_def)
  have k: "GEMINI_API_KEY example_env = Some ''key''"
    by (simp add: example_env_def)
  have n: "''key'' \<noteq> []"
    by simp
  have f: "field (body empty_parts_request) ''parts'' = JArr []"
    by (simp add: empty_parts_request_def field_def)
  have s: "field (body empty_parts_request) ''systemInstruction'' = JUndefined"
    by (simp add: empty_parts_request_def field_def)
  have v: "verification_passes verify_accepts empty_parts_request"
    by (simp add: verification_passes_def verify_accepts_def empty_parts_request_def
        bearer_headers_def startsWith_def)
  have t: "token_sent empty_parts_request = JStr ''abc''"
    by (simp add: token_sent_def empty_parts_request_def bearer_headers_def idToken_example)
  show ?thesis
    using array_parts_forwarded [OF m k n f, of "always reply_overloaded" verify_accepts]
      admin_example v t f s
    by simp
qed

section \<open>The upstream request\<close>

text \<open>
  C5: the request built for the upstream has a \<^verbatim>\<open>contents\<close> list of exactly one
  element, with role \<^verbatim>\<open>"user"\<close> and with the input \<^verbatim>\<open>parts\<close> unchanged as its
  \<^verbatim>\<open>parts\<close>, and \<^verbatim>\<open>systemInstruction.parts[0].text\<close> is the input
  \<^verbatim>\<open>systemInstruction\<close>. The builder is a function of its two inputs.
\<close>

theorem geminiPayload_shape:
  "prop_of (geminiPayload parts systemInstruction) ''contents'' =
     JArr [JObj [(''role'', JStr ''user''), (''parts'', parts)]] \<and>
   prop_of (index_of (prop_of (geminiPayload parts systemInstruction) ''contents'') 0) ''role'' =
     JStr ''user'' \<and>
   prop_of (index_of (prop_of (geminiPayload parts systemInstruction) ''contents'') 0) ''parts'' =
     parts \<and>
   prop_of (index_of (prop_of (prop_of (geminiPayload parts systemInstruction)
     ''systemInstruction'') ''parts'') 0) ''text'' = systemInstruction"
  by (simp add: geminiPayload_def)

section \<open>Facts about the upstream call\<close>

lemma handler_auth_as_handler:
  "accepted env k req \<Longrightarrow> admin_configured env \<Longrightarrow> verification_passes verifyIdToken req \<Longrightarrow>
   handler_auth env verifyIdToken upstream req =
     (fst (handler env upstream req),
      VerifyIdToken (token_sent req) # snd (handler env upstream req))"
  by (simp add: handler_accepted handler_auth_accepted split: prod.splits)

lemma handler_eq:
  "accepted env k req \<Longrightarrow>
   handler env upstream req =
     (Inr (answer_to (upstream (last_attempt upstream))),
      backoff_trace (apiUrl k) (payload_of req) (last_attempt upstream))"
  by (simp add: handler_accepted call_gemini_eq)

lemma backoff_trace_2:
  "backoff_trace url p 2 =
     [Fetch url p, Timeout 1000, Fetch url p, Timeout 2000, Fetch url p]"
  by (simp add: numeral_2_eq_2)

lemma answer_to_failure:
  "\<not> ok r \<Longrightarrow> upstream_json r = Some d \<Longrightarrow>
   answer_to (Resolved r) =
     \<lparr>status = upstream_status r,
      sent = JObj [(''error'', JStr ''AI Service Error''), (''details'', d)]\<rparr>"
  by (simp add: answer_to_def translate_def)

lemma last_attempt_always: "ok r \<Longrightarrow> last_attempt (always r) = 0"
  by (simp add: last_attempt_def settles_def always_def)

lemma token_example: "token_sent example_request = JStr ''abc''"
  by (simp add: token_sent_def example_request_def bearer_headers_def idToken_example)

lemma answer_hi:
  "answer_to (Resolved reply_hi) = \<lparr>status = 200, sent = JObj [(''text'', JStr ''hi'')]\<rparr>"
  by (simp add: answer_to_def translate_def reply_hi_def ok_def extract_text_def
      candidates_with_def get_prop_def opt_prop_def opt_index_def)

lemma verify_count_append: "verify_count (xs @ ys) = verify_count xs + verify_count ys"
  by (induction xs rule: verify_count.induct) simp_all

lemma verify_count_backoff: "verify_count (backoff_trace url p n) = 0"
  by (induction n) (simp_all add: verify_count_append)

lemma process_payload_no_verify: "verify_count (snd (process_payload upstream k b)) = 0"
  by (cases "isArray (field b ''parts'')")
     (simp_all add: process_payload_rejects process_payload_forwards call_gemini_eq
       verify_count_backoff)

lemma process_payload_trace:
  "process_payload upstream k b = (out, tr) \<Longrightarrow> verify_count tr = 0"
  using process_payload_no_verify [of upstream k b] by simp

lemma extract_text_lookup:
  "\<not> nullish result \<Longrightarrow>
   extract_text result =
     Inr (case lookup_path result text_path of None \<Rightarrow> JUndefined | Some text \<Rightarrow> text)"
  by (simp add: extract_text_def get_prop_def text_path_def opt_prop_def opt_index_def Let_def)

lemma answer_to_success:
  assumes "ok r" and "upstream_json r = Some result" and "\<not> nullish result"
  shows "answer_to (Resolved r) =
     (case lookup_path result text_path of
        None \<Rightarrow> \<lparr>status = 500, sent = error_body ''AI response was empty.''\<rparr>
      | Some text \<Rightarrow>
          if truthy text then \<lparr>status = 200, sent = JObj [(''text'', text)]\<rparr>
          else \<lparr>status = 500, sent = error_body ''AI response was empty.''\<rparr>)"
  using assms
  by (simp add: answer_to_def translate_def extract_text_lookup split: option.splits)

section \<open>Authentication\<close>

text \<open>
  C1, as the code has it: in the authenticated variant, for every POST request with the
  server configuration present, a missing \<^verbatim>\<open>Authorization\<close> header or one that does
  not begin with \<^verbatim>\<open>Bearer \<close> is answered 401 with
  \<^verbatim>\<open>{"error":"Authorization header missing or invalid."}\<close>. When a bearer token is
  present and verification fails the status is 403 in every case, but the body depends on
  the failure: \<^verbatim>\<open>{"error":"Access denied: Token verification failed."}\<close> when the
  identity service rejects the token, \<^verbatim>\<open>{"error":"Invalid or revoked user token."}\<close>
  when it returns no decoded token or one whose \<^verbatim>\<open>uid\<close> is \<^verbatim>\<open>null\<close>. The
  upstream is not called in any of these cases.
\<close>

theorem authentication_failures:
  assumes "method req = ''POST''" and "GEMINI_API_KEY env = Some k" and "k \<noteq> []"
    and "admin_configured env"
  shows "(headers req ''authorization'' = None \<or>
          (\<exists>h. headers req ''authorization'' = Some h \<and> \<not> startsWith h ''Bearer '') \<longrightarrow>
            handler_auth env verifyIdToken upstream req =
              (Inr \<lparr>status = 401, sent = error_body ''Authorization header missing or invalid.''\<rparr>,
               [])) \<and>
         (\<forall>h. headers req ''authorization'' = Some h \<and> startsWith h ''Bearer '' \<longrightarrow>
            (verifyIdToken (idToken_of h) = VerifyRejected \<longrightarrow>
               handler_auth env verifyIdToken upstream req =
                 (Inr \<lparr>status = 403,
                       sent = error_body ''Access denied: Token verification failed.''\<rparr>,
                  [VerifyIdToken (idToken_of h)])) \<and>
            (\<forall>tok. verifyIdToken (idToken_of h) = Decoded tok \<and>
                   (\<not> truthy tok \<or> prop_of tok ''uid'' = JNull) \<longrightarrow>
               handler_auth env verifyIdToken upstream req =
                 (Inr \<lparr>status = 403, sent = error_body ''Invalid or revoked user token.''\<rparr>,
                  [VerifyIdToken (idToken_of h)])))"
  using assms
  by (auto simp: handler_auth_def admin_configured_def startsWith_def get_prop_def Let_def
      truthy_not_nullish)

text \<open>
  The theorem at a request without the header, at one with a \<^verbatim>\<open>Basic\<close> header, at
  a rejected token and at a decoded token whose \<^verbatim>\<open>uid\<close> is \<^verbatim>\<open>null\<close>.
\<close>

theorem authentication_failures_witness:
  "handler_auth example_env verify_accepts (always reply_hi) no_header_request =
     (Inr \<lparr>status = 401, sent = error_body ''Authorization header missing or invalid.''\<rparr>, []) \<and>
   handler_auth example_env verify_accepts (always reply_hi) basic_header_request =
     (Inr \<lparr>status = 401, sent = error_body ''Authorization header missing or invalid.''\<rparr>, []) \<and>
   handler_auth example_env verify_rejects (always reply_hi) example_request =
     (Inr \<lparr>status = 403, sent = error_body ''Access denied: Token verification failed.''\<rparr>,
      [VerifyIdToken (JStr ''abc'')]) \<and>
   handler_auth example_env verify_null_uid (always reply_hi) example_request =
     (Inr \<lparr>status = 403, sent = error_body ''Invalid or revoked user token.''\<rparr>,
      [VerifyIdToken (JStr ''abc'')])"
proof -
  have k: "GEMINI_API_KEY example_env = Some ''key''"
    by (simp add: example_env_def)
  have n: "''key'' \<noteq> []"
    by simp
  have m0: "method no_header_request = ''POST''"
    by (simp add: no_header_request_def)
  have h0: "headers no_header_request ''authorization'' = None"
    by (simp add: no_header_request_def no_headers_def)
  have m1: "method basic_header_request = ''POST''"
    by (simp add: basic_header_request_def)
  have h1: "headers basic_header_request ''authorization'' = Some ''Basic abc''"
    by (simp add: basic_header_request_def)
  have s1: "\<not> startsWith ''Basic abc'' ''Bearer ''"
    by (simp add: startsWith_def)
  have m: "method example_request = ''POST''"
    by (simp add: example_request_def)
  have h: "headers example_request ''authorization'' = Some ''Bearer abc''"
    by (simp add: example_request_def bearer_headers_def)
  have s: "startsWith ''Bearer abc'' ''Bearer ''"
    by (simp add: startsWith_def)
  have r: "verify_rejects (idToken_of ''Bearer abc'') = VerifyRejected"
    by (simp add: verify_rejects_def)
  have u: "verify_null_uid (idToken_of ''Bearer abc'') = Decoded (JObj [(''uid'', JNull)])"
    by (simp add: verify_null_uid_def)
  have p: "prop_of (JObj [(''uid'', JNull)]) ''uid'' = JNull"
    by simp
  show ?thesis
    using authentication_failures [OF m0 k n admin_example, of verify_accepts "always reply_hi"]
      authentication_failures [OF m1 k n admin_example, of verify_accepts "always reply_hi"]
      h1 s1
      authentication_failures [OF m k n admin_example, of verify_rejects "always reply_hi"]
      authentication_failures [OF m k n admin_example, of verify_null_uid "always reply_hi"]
      h0 h s r u p idToken_example
    by simp
qed

text \<open>
  C1 as stated fails: the two 403 responses are not identical. A token the identity
  service rejects and a token decoded with a \<^verbatim>\<open>null\<close> \<^verbatim>\<open>uid\<close> get different
  bodies.
\<close>

theorem verification_failures_differ:
  "handler_auth example_env verify_rejects (always reply_hi) example_request =
     (Inr \<lparr>status = 403, sent = JObj [(''error'', JStr ''Access denied: Token verification failed.'')]\<rparr>,
      [VerifyIdToken (JStr ''abc'')]) \<and>
   handler_auth example_env verify_null_uid (always reply_hi) example_request =
     (Inr \<lparr>status = 403, sent = JObj [(''error'', JStr ''Invalid or revoked user token.'')]\<rparr>,
      [VerifyIdToken (JStr ''abc'')]) \<and>
   fst (handler_auth example_env verify_rejects (always reply_hi) example_request) \<noteq>
   fst (handler_auth example_env verify_null_uid (always reply_hi) example_request)"
  by (simp add: handler_auth_def example_env_def example_request_def bearer_headers_def
      env_value_def startsWith_def verify_rejects_def verify_null_uid_def idToken_example
      get_prop_def error_body_def)

text \<open>
  C9: in the authenticated variant verification completes before the payload is looked
  at. When verification does not pass, the run is the same for every body and every
  upstream and calls no upstream. When a run calls the upstream or answers with the
  payload check's 400, verification has passed (the identity service returned a truthy
  decoded token whose \<^verbatim>\<open>uid\<close> is not \<^verbatim>\<open>null\<close>), and the call to the identity
  service is the first event of the run, before every upstream call.
\<close>

theorem verification_before_payload:
  "(\<not> verification_passes verifyIdToken req \<longrightarrow>
      handler_auth env verifyIdToken upstream req =
        handler_auth env verifyIdToken upstream' (req\<lparr>body := b\<rparr>) \<and>
      fetch_count (snd (handler_auth env verifyIdToken upstream req)) = 0) \<and>
   (0 < fetch_count (snd (handler_auth env verifyIdToken upstream req)) \<or>
    fst (handler_auth env verifyIdToken upstream req) =
      Inr \<lparr>status = 400, sent = error_body ''Missing content parts.''\<rparr> \<longrightarrow>
      verification_passes verifyIdToken req \<and>
      (\<exists>tr. snd (handler_auth env verifyIdToken upstream req) =
              VerifyIdToken (token_sent req) # tr \<and> verify_count tr = 0))"
proof -
  have early: "handler_auth env verifyIdToken upstream req =
        handler_auth env verifyIdToken upstream' (req\<lparr>body := b\<rparr>) \<and>
      fetch_count (snd (handler_auth env verifyIdToken upstream req)) = 0"
    if "\<not> verification_passes verifyIdToken req"
    using that
    by (auto simp: handler_auth_def verification_passes_def get_prop_def Let_def
        truthy_not_nullish split: option.splits verify_outcome.splits)
  have late: "verification_passes verifyIdToken req \<and>
      (\<exists>tr. snd (handler_auth env verifyIdToken upstream req) =
              VerifyIdToken (token_sent req) # tr \<and> verify_count tr = 0)"
    if "0 < fetch_count (snd (handler_auth env verifyIdToken upstream req)) \<or>
        fst (handler_auth env verifyIdToken upstream req) =
          Inr \<lparr>status = 400, sent = error_body ''Missing content parts.''\<rparr>"
    using that
    by (auto simp: handler_auth_def verification_passes_def token_sent_def get_prop_def Let_def
        truthy_not_nullish error_body_def dest: process_payload_trace
        split: option.splits verify_outcome.splits prod.splits if_splits)
  show ?thesis
    using early late by blast
qed

text \<open>
  The theorem at a rejected token (first part) and at an accepted one (second part).
\<close>

theorem verification_before_payload_witness:
  "\<not> verification_passes verify_rejects example_request \<and>
   handler_auth example_env verify_rejects (always reply_hi) example_request =
     handler_auth example_env verify_rejects (always reply_overloaded)
       (example_request\<lparr>body := JNull\<rparr>) \<and>
   fetch_count (snd (handler_auth example_env verify_rejects (always reply_hi)
     example_request)) = 0 \<and>
   0 < fetch_count (snd (handler_auth example_env verify_accepts (always reply_hi)
     example_request)) \<and>
   verification_passes verify_accepts example_request \<and>
   (\<exists>tr. snd (handler_auth example_env verify_accepts (always reply_hi) example_request) =
      VerifyIdToken (JStr ''abc'') # tr \<and> verify_count tr = 0)"
proof -
  have nv: "\<not> verification_passes verify_rejects example_request"
    by (simp add: verification_passes_def verify_rejects_def example_request_def
        bearer_headers_def)
  have f: "0 < fetch_count (snd (handler_auth example_env verify_accepts (always reply_hi)
      example_request))"
    by (simp add: handler_auth_accepted [OF accepted_example admin_example verification_example]
        call_gemini_eq fetch_count_backoff)
  have early: "handler_auth example_env verify_rejects (always reply_hi) example_request =
      handler_auth example_env verify_rejects (always reply_overloaded)
        (example_request\<lparr>body := JNull\<rparr>) \<and>
    fetch_count (snd (handler_auth example_env verify_rejects (always reply_hi)
      example_request)) = 0"
    using verification_before_payload [where verifyIdToken = verify_rejects
        and req = example_request and env = example_env and upstream = "always reply_hi"
        and upstream' = "always reply_overloaded" and b = JNull] nv
    by blast
  have late: "verification_passes verify_accepts example_request \<and>
    (\<exists>tr. snd (handler_auth example_env verify_accepts (always reply_hi) example_request) =
       VerifyIdToken (token_sent example_request) # tr \<and> verify_count tr = 0)"
    using verification_before_payload [where verifyIdToken = verify_accepts
        and req = example_request and env = example_env and upstream = "always reply_hi"] f
    by blast
  have first: "\<exists>tr. snd (handler_auth example_env verify_accepts (always reply_hi)
      example_request) = VerifyIdToken (JStr ''abc'') # tr \<and> verify_count tr = 0"
    using late by (simp add: token_example)
  show ?thesis
    using nv f early late first by blast
qed

section \<open>Retries\<close>

text \<open>
  C2, as the code has it. For every request that reaches the upstream call: the events
  are those of \<^const>\<open>last_attempt\<close> unsuccessful attempts, each followed by a wait of
  \<open>1000 * 2 ^ i\<close> for attempt index \<open>i\<close>, and one last attempt, so the loop stops at
  the first attempt that settles or at the third; there are at most three attempts. When
  the first two attempts return non-2xx and the third returns, the total wait is
  \<open>1000 + 2000\<close>; if the third is a 2xx the answer is the one the handler gives when
  that response comes at once; if it is a non-2xx whose body is JSON the answer has the
  status of that response and the body
  \<^verbatim>\<open>{"error":"AI Service Error","details":<that body>}\<close>. The authenticated variant
  does the same after its call to the identity service.
\<close>

theorem retry_policy:
  assumes "accepted env k req"
  shows "snd (handler env upstream req) =
           backoff_trace (apiUrl k) (payload_of req) (last_attempt upstream) \<and>
         fetch_count (snd (handler env upstream req)) \<le> 3 \<and>
         (\<forall>r0 r1 r2.
            upstream 0 = Resolved r0 \<and> \<not> ok r0 \<and> upstream 1 = Resolved r1 \<and> \<not> ok r1 \<and>
            upstream 2 = Resolved r2 \<longrightarrow>
              snd (handler env upstream req) =
                [Fetch (apiUrl k) (payload_of req), Timeout 1000,
                 Fetch (apiUrl k) (payload_of req), Timeout 2000,
                 Fetch (apiUrl k) (payload_of req)] \<and>
              total_wait (snd (handler env upstream req)) = 1000 + 2000 \<and>
              (ok r2 \<longrightarrow>
                 fst (handler env upstream req) = fst (handler env (always r2) req)) \<and>
              (\<forall>d. \<not> ok r2 \<and> upstream_json r2 = Some d \<longrightarrow>
                 fst (handler env upstream req) =
                   Inr \<lparr>status = upstream_status r2,
                        sent = JObj [(''error'', JStr ''AI Service Error''), (''details'', d)]\<rparr>)) \<and>
         (admin_configured env \<longrightarrow> verification_passes verifyIdToken req \<longrightarrow>
            handler_auth env verifyIdToken upstream req =
              (fst (handler env upstream req),
               VerifyIdToken (token_sent req) # snd (handler env upstream req)))"
proof -
  have events: "snd (handler env upstream req) =
      backoff_trace (apiUrl k) (payload_of req) (last_attempt upstream)"
    using assms by (simp add: handler_eq)
  have bound: "fetch_count (snd (handler env upstream req)) \<le> 3"
    using last_attempt_le [of upstream] by (simp add: events fetch_count_backoff)
  have three: "snd (handler env upstream req) =
        [Fetch (apiUrl k) (payload_of req), Timeout 1000,
         Fetch (apiUrl k) (payload_of req), Timeout 2000,
         Fetch (apiUrl k) (payload_of req)] \<and>
      total_wait (snd (handler env upstream req)) = 1000 + 2000 \<and>
      (ok r2 \<longrightarrow> fst (handler env upstream req) = fst (handler env (always r2) req)) \<and>
      (\<forall>d. \<not> ok r2 \<and> upstream_json r2 = Some d \<longrightarrow>
         fst (handler env upstream req) =
           Inr \<lparr>status = upstream_status r2,
                sent = JObj [(''error'', JStr ''AI Service Error''), (''details'', d)]\<rparr>)"
    if "upstream 0 = Resolved r0 \<and> \<not> ok r0 \<and> upstream 1 = Resolved r1 \<and> \<not> ok r1 \<and>
        upstream 2 = Resolved r2" for r0 r1 r2
  proof -
    from that have l: "last_attempt upstream = 2"
      by (simp add: last_attempt_def settles_def)
    have a: "fst (handler env upstream req) = Inr (answer_to (Resolved r2))"
      using assms that by (simp add: handler_eq l)
    have b: "ok r2 \<longrightarrow> fst (handler env (always r2) req) = Inr (answer_to (Resolved r2))"
      using assms by (simp add: handler_eq last_attempt_always) (simp add: always_def)
    show ?thesis
      using a b by (simp add: events l backoff_trace_2 answer_to_failure)
  qed
  have auth: "admin_configured env \<longrightarrow> verification_passes verifyIdToken req \<longrightarrow>
      handler_auth env verifyIdToken upstream req =
        (fst (handler env upstream req),
         VerifyIdToken (token_sent req) # snd (handler env upstream req))"
    using assms by (simp add: handler_auth_as_handler)
  show ?thesis
    using events bound three auth by blast
qed

text \<open>
  The theorem at an upstream that answers 503 twice and then 200, and at one that always
  answers 503 with a JSON body.
\<close>

theorem retry_policy_witness:
  "handler example_env recovers_third example_request =
     (Inr \<lparr>status = 200, sent = JObj [(''text'', JStr ''hi'')]\<rparr>,
      [Fetch (apiUrl ''key'') (payload_of example_request), Timeout 1000,
       Fetch (apiUrl ''key'') (payload_of example_request), Timeout 2000,
       Fetch (apiUrl ''key'') (payload_of example_request)]) \<and>
   total_wait (snd (handler example_env recovers_third example_request)) = 3000 \<and>
   handler example_env (always reply_overloaded) example_request =
     (Inr \<lparr>status = 503,
           sent = JObj [(''error'', JStr ''AI Service Error''),
                        (''details'', JObj [(''message'', JStr ''overloaded'')])]\<rparr>,
      [Fetch (apiUrl ''key'') (payload_of example_request), Timeout 1000,
       Fetch (apiUrl ''key'') (payload_of example_request), Timeout 2000,
       Fetch (apiUrl ''key'') (payload_of example_request)]) \<and>
   handler_auth example_env verify_accepts recovers_third example_request =
     (Inr \<lparr>status = 200, sent = JObj [(''text'', JStr ''hi'')]\<rparr>,
      [VerifyIdToken (JStr ''abc''),
       Fetch (apiUrl ''key'') (payload_of example_request), Timeout 1000,
       Fetch (apiUrl ''key'') (payload_of example_request), Timeout 2000,
       Fetch (apiUrl ''key'') (payload_of example_request)])"
proof -
  have o: "\<not> ok reply_overloaded" "ok reply_hi"
    by (simp_all add: ok_def reply_overloaded_def reply_hi_def)
  have j: "upstream_json reply_overloaded = Some (JObj [(''message'', JStr ''overloaded'')])"
    "upstream_status reply_overloaded = 503"
    by (simp_all add: reply_overloaded_def)
  have r: "recovers_third 0 = Resolved reply_overloaded"
    "recovers_third 1 = Resolved reply_overloaded" "recovers_third 2 = Resolved reply_hi"
    by (simp_all add: recovers_third_def)
  have a: "always reply_overloaded 0 = Resolved reply_overloaded"
    "always reply_overloaded 1 = Resolved reply_overloaded"
    "always reply_overloaded 2 = Resolved reply_overloaded"
    by (simp_all add: always_def)
  have h: "fst (handler example_env (always reply_hi) example_request) =
      Inr \<lparr>status = 200, sent = JObj [(''text'', JStr ''hi'')]\<rparr>"
    using o by (simp add: handler_eq [OF accepted_example] last_attempt_always)
      (simp add: always_def answer_hi)
  have first: "handler example_env recovers_third example_request =
     (Inr \<lparr>status = 200, sent = JObj [(''text'', JStr ''hi'')]\<rparr>,
      [Fetch (apiUrl ''key'') (payload_of example_request), Timeout 1000,
       Fetch (apiUrl ''key'') (payload_of example_request), Timeout 2000,
       Fetch (apiUrl ''key'') (payload_of example_request)]) \<and>
     total_wait (snd (handler example_env recovers_third example_request)) = 3000 \<and>
     handler_auth example_env verify_accepts recovers_third example_request =
     (Inr \<lparr>status = 200, sent = JObj [(''text'', JStr ''hi'')]\<rparr>,
      [VerifyIdToken (JStr ''abc''),
       Fetch (apiUrl ''key'') (payload_of example_request), Timeout 1000,
       Fetch (apiUrl ''key'') (payload_of example_request), Timeout 2000,
       Fetch (apiUrl ''key'') (payload_of example_request)])"
  proof -
    have "snd (handler example_env recovers_third example_request) =
        [Fetch (apiUrl ''key'') (payload_of example_request), Timeout 1000,
         Fetch (apiUrl ''key'') (payload_of example_request), Timeout 2000,
         Fetch (apiUrl ''key'') (payload_of example_request)] \<and>
      total_wait (snd (handler example_env recovers_third example_request)) = 1000 + 2000 \<and>
      fst (handler example_env recovers_third example_request) =
        fst (handler example_env (always reply_hi) example_request) \<and>
      handler_auth example_env verify_accepts recovers_third example_request =
        (fst (handler example_env recovers_third example_request),
         VerifyIdToken (token_sent example_request)
           # snd (handler example_env recovers_third example_request))"
      using retry_policy [OF accepted_example, of recovers_third verify_accepts]
        o r admin_example verification_example
      by blast
    then show ?thesis
      using h token_example by (simp add: prod_eq_iff)
  qed
  have second: "handler example_env (always reply_overloaded) example_request =
     (Inr \<lparr>status = 503,
           sent = JObj [(''error'', JStr ''AI Service Error''),
                        (''details'', JObj [(''message'', JStr ''overloaded'')])]\<rparr>,
      [Fetch (apiUrl ''key'') (payload_of example_request), Timeout 1000,
       Fetch (apiUrl ''key'') (payload_of example_request), Timeout 2000,
       Fetch (apiUrl ''key'') (payload_of example_request)])"
  proof -
    have "snd (handler example_env (always reply_overloaded) example_request) =
        [Fetch (apiUrl ''key'') (payload_of example_request), Timeout 1000,
         Fetch (apiUrl ''key'') (payload_of example_request), Timeout 2000,
         Fetch (apiUrl ''key'') (payload_of example_request)] \<and>
      fst (handler example_env (always reply_overloaded) example_request) =
        Inr \<lparr>status = upstream_status reply_overloaded,
             sent = JObj [(''error'', JStr ''AI Service Error''),
                          (''details'', JObj [(''message'', JStr ''overloaded'')])]\<rparr>"
      using retry_policy [OF accepted_example, of "always reply_overloaded" verify_accepts]
        o a j(1)
      by blast
    then show ?thesis
      using j(2) by (simp add: prod_eq_iff)
  qed
  show ?thesis
    using first second by simp
qed

text \<open>
  C2 as stated fails where the last non-2xx response has a body that is not JSON:
  \<^verbatim>\<open>geminiResponse.json()\<close> raises, and the caller gets 500 with
  \<^verbatim>\<open>{"error":"Internal server error during fetch."}\<close> instead of the upstream status
  503.
\<close>

theorem unparsable_failure_body:
  "always reply_not_json 0 = Resolved reply_not_json \<and>
   always reply_not_json 1 = Resolved reply_not_json \<and>
   always reply_not_json 2 = Resolved reply_not_json \<and>
   \<not> ok reply_not_json \<and> upstream_status reply_not_json = 503 \<and>
   handler example_env (always reply_not_json) example_request =
     (Inr \<lparr>status = 500, sent = error_body ''Internal server error during fetch.''\<rparr>,
      [Fetch (apiUrl ''key'') (payload_of example_request), Timeout 1000,
       Fetch (apiUrl ''key'') (payload_of example_request), Timeout 2000,
       Fetch (apiUrl ''key'') (payload_of example_request)])"
proof -
  have l: "last_attempt (always reply_not_json) = 2"
    by (simp add: last_attempt_def settles_def always_def ok_def reply_not_json_def)
  have a: "answer_to (always reply_not_json 2) =
      \<lparr>status = 500, sent = error_body ''Internal server error during fetch.''\<rparr>"
    by (simp add: answer_to_def always_def translate_def reply_not_json_def internal_error_def)
  show ?thesis
    by (simp add: handler_eq [OF accepted_example] l a backoff_trace_2)
      (simp add: always_def ok_def reply_not_json_def)
qed

text \<open>
  C3, as the code has it: a connection error is not retried. When attempt \<open>n\<close> raises
  after \<open>n\<close> non-2xx responses, the handler answers 500 with
  \<^verbatim>\<open>{"error":"Internal server error during fetch."}\<close> and attempt \<open>n\<close> is the last
  one: \<open>n + 1\<close> calls of \<^verbatim>\<open>fetch\<close> in all.
\<close>

theorem connection_error_ends_loop:
  assumes "accepted env k req" and "upstream n = Rejected" and "n \<le> 2"
    and "\<forall>i<n. \<exists>r. upstream i = Resolved r \<and> \<not> ok r"
  shows "handler env upstream req =
           (Inr \<lparr>status = 500, sent = error_body ''Internal server error during fetch.''\<rparr>,
            backoff_trace (apiUrl k) (payload_of req) n) \<and>
         fetch_count (snd (handler env upstream req)) = Suc n \<and>
         (admin_configured env \<longrightarrow> verification_passes verifyIdToken req \<longrightarrow>
            handler_auth env verifyIdToken upstream req =
              (fst (handler env upstream req),
               VerifyIdToken (token_sent req) # snd (handler env upstream req)))"
proof -
  have unsettled: "\<not> settles (upstream i)" if "i < n" for i
    using assms(4) that by (auto simp: settles_def)
  have settled: "settles (upstream n)"
    using assms(2) by (simp add: settles_def)
  from \<open>n \<le> 2\<close> consider "n = 0" | "n = 1" | "n = 2"
    by linarith
  then have l: "last_attempt upstream = n"
  proof cases
    case 1
    with settled show ?thesis by (simp add: last_attempt_def)
  next
    case 2
    with settled unsettled [of 0] show ?thesis by (simp add: last_attempt_def)
  next
    case 3
    with unsettled [of 0] unsettled [of 1] show ?thesis by (simp add: last_attempt_def)
  qed
  have e: "handler env upstream req =
      (Inr \<lparr>status = 500, sent = error_body ''Internal server error during fetch.''\<rparr>,
       backoff_trace (apiUrl k) (payload_of req) n)"
    using assms(1,2) by (simp add: handler_eq l answer_to_def internal_error_def)
  show ?thesis
    using assms(1) by (simp add: e fetch_count_backoff handler_auth_as_handler)
qed

text \<open>
  The theorem at an upstream that answers 503 and then raises.
\<close>

theorem connection_error_ends_loop_witness:
  "fails_second 1 = Rejected \<and>
   fails_second 0 = Resolved reply_overloaded \<and> \<not> ok reply_overloaded \<and>
   handler example_env fails_second example_request =
     (Inr \<lparr>status = 500, sent = error_body ''Internal server error during fetch.''\<rparr>,
      [Fetch (apiUrl ''key'') (payload_of example_request), Timeout 1000,
       Fetch (apiUrl ''key'') (payload_of example_request)]) \<and>
   fetch_count (snd (handler example_env fails_second example_request)) = 2 \<and>
   handler_auth example_env verify_accepts fails_second example_request =
     (Inr \<lparr>status = 500, sent = error_body ''Internal server error during fetch.''\<rparr>,
      [VerifyIdToken (JStr ''abc''),
       Fetch (apiUrl ''key'') (payload_of example_request), Timeout 1000,
       Fetch (apiUrl ''key'') (payload_of example_request)])"
proof -
  have r: "fails_second 1 = Rejected"
    by (simp add: fails_second_def)
  have n: "(1::nat) \<le> 2"
    by simp
  have z: "fails_second 0 = Resolved reply_overloaded \<and> \<not> ok reply_overloaded"
    by (simp add: fails_second_def ok_def reply_overloaded_def)
  then have b: "\<forall>i<1. \<exists>r. fails_second i = Resolved r \<and> \<not> ok r"
    by simp
  show ?thesis
    using connection_error_ends_loop [OF accepted_example r n b, of verify_accepts]
      r z admin_example verification_example token_example
    by simp
qed

text \<open>
  C3 as stated fails: when the first attempt raises, the handler answers 500 after that
  one call, although two attempts are left and the next one would have succeeded.
\<close>

theorem connection_error_first_attempt:
  "fails_once 0 = Rejected \<and> fails_once 1 = Resolved reply_hi \<and> ok reply_hi \<and>
   handler example_env fails_once example_request =
     (Inr \<lparr>status = 500, sent = error_body ''Internal server error during fetch.''\<rparr>,
      [Fetch (apiUrl ''key'') (payload_of example_request)]) \<and>
   fetch_count (snd (handler example_env fails_once example_request)) = 1"
proof -
  have l: "last_attempt fails_once = 0"
    by (simp add: last_attempt_def settles_def fails_once_def)
  have a: "answer_to (fails_once 0) =
      \<lparr>status = 500, sent = error_body ''Internal server error during fetch.''\<rparr>"
    by (simp add: answer_to_def fails_once_def internal_error_def)
  show ?thesis
    by (simp add: handler_eq [OF accepted_example] l a)
      (simp add: fails_once_def ok_def reply_hi_def)
qed

section \<open>Reading the upstream response\<close>

text \<open>
  C4, as the code has it. For every request that reaches the upstream call and every 2xx
  response ending the loop whose parsed body is not \<^verbatim>\<open>null\<close>: the answer is 200 with
  \<^verbatim>\<open>{"text": t}\<close> when every segment of
  \<^verbatim>\<open>candidates[0].content.parts[0].text\<close> is present and the text \<open>t\<close> is truthy,
  and 500 with \<^verbatim>\<open>{"error":"AI response was empty."}\<close> otherwise: exactly when a
  segment is absent or the text is falsy, as the empty string is.
\<close>

theorem text_extraction:
  assumes "accepted env k req" and "upstream (last_attempt upstream) = Resolved r" and "ok r"
    and "upstream_json r = Some result" and "\<not> nullish result"
  shows "fst (handler env upstream req) =
           Inr (case lookup_path result text_path of
                  None \<Rightarrow> \<lparr>status = 500, sent = error_body ''AI response was empty.''\<rparr>
                | Some text \<Rightarrow>
                    if truthy text then \<lparr>status = 200, sent = JObj [(''text'', text)]\<rparr>
                    else \<lparr>status = 500, sent = error_body ''AI response was empty.''\<rparr>) \<and>
         ((fst (handler env upstream req) =
             Inr \<lparr>status = 500, sent = error_body ''AI response was empty.''\<rparr>) =
          (\<forall>text. lookup_path result text_path = Some text \<longrightarrow> \<not> truthy text)) \<and>
         (admin_configured env \<longrightarrow> verification_passes verifyIdToken req \<longrightarrow>
            handler_auth env verifyIdToken upstream req =
              (fst (handler env upstream req),
               VerifyIdToken (token_sent req) # snd (handler env upstream req)))"
proof -
  have a: "fst (handler env upstream req) = Inr (answer_to (Resolved r))"
    using assms(1,2) by (simp add: handler_eq)
  show ?thesis
    using assms(1)
    by (simp add: a answer_to_success [OF assms(3,4,5)] handler_auth_as_handler
        split: option.splits)
qed

text \<open>
  The theorem at the response \<^verbatim>\<open>{"candidates":[{"content":{"parts":[{"text":"hi"}]}}]}\<close>.
\<close>

theorem text_extraction_witness:
  "always reply_hi (last_attempt (always reply_hi)) = Resolved reply_hi \<and> ok reply_hi \<and>
   lookup_path (candidates_with (JStr ''hi'')) text_path = Some (JStr ''hi'') \<and>
   fst (handler example_env (always reply_hi) example_request) =
     Inr \<lparr>status = 200, sent = JObj [(''text'', JStr ''hi'')]\<rparr> \<and>
   handler_auth example_env verify_accepts (always reply_hi) example_request =
     (Inr \<lparr>status = 200, sent = JObj [(''text'', JStr ''hi'')]\<rparr>,
      [VerifyIdToken (JStr ''abc''), Fetch (apiUrl ''key'') (payload_of example_request)])"
proof -
  have u: "always reply_hi (last_attempt (always reply_hi)) = Resolved reply_hi"
    by (simp add: always_def)
  have o: "ok reply_hi"
    by (simp add: ok_def reply_hi_def)
  have j: "upstream_json reply_hi = Some (candidates_with (JStr ''hi''))"
    by (simp add: reply_hi_def)
  have n: "\<not> nullish (candidates_with (JStr ''hi''))"
    by (simp add: candidates_with_def)
  have l: "lookup_path (candidates_with (JStr ''hi'')) text_path = Some (JStr ''hi'')"
    by (simp add: candidates_with_def text_path_def)
  have e: "snd (handler example_env (always reply_hi) example_request) =
      [Fetch (apiUrl ''key'') (payload_of example_request)]"
    using o by (simp add: handler_eq [OF accepted_example] last_attempt_always)
  show ?thesis
    using text_extraction [where upstream = "always reply_hi" and r = reply_hi
        and verifyIdToken = verify_accepts, OF accepted_example u o j n]
      admin_example verification_example token_example u o l e
    by simp
qed

text \<open>
  C4 as stated fails: in
  \<^verbatim>\<open>{"candidates":[{"content":{"parts":[{"text":""}]}}]}\<close> every segment of the path is
  present, and the answer is the 500 of an empty response.
\<close>

theorem empty_text_present:
  "ok reply_empty_text \<and>
   upstream_json reply_empty_text = Some (candidates_with (JStr [])) \<and>
   lookup_path (candidates_with (JStr [])) text_path = Some (JStr []) \<and>
   handler example_env (always reply_empty_text) example_request =
     (Inr \<lparr>status = 500, sent = error_body ''AI response was empty.''\<rparr>,
      [Fetch (apiUrl ''key'') (payload_of example_request)])"
proof -
  have o: "ok reply_empty_text"
    by (simp add: ok_def reply_empty_text_def)
  have l: "lookup_path (candidates_with (JStr [])) text_path = Some (JStr [])"
    by (simp add: candidates_with_def text_path_def)
  have a: "answer_to (always reply_empty_text 0) =
      \<lparr>status = 500, sent = error_body ''AI response was empty.''\<rparr>"
    by (simp add: answer_to_def always_def translate_def reply_empty_text_def ok_def
        extract_text_def candidates_with_def get_prop_def opt_prop_def opt_index_def)
  show ?thesis
    using o l by (simp add: handler_eq [OF accepted_example] last_attempt_always a)
      (simp add: reply_empty_text_def)
qed

end
